theory Spec2Isabelle
  imports Main
begin

section \<open>Data model (types.ts)\<close>

text \<open>
  The records follow \<^verbatim>\<open>types.ts\<close>. Both \<^verbatim>\<open>Message\<close> and \<^verbatim>\<open>ChatSession\<close> have a field
  \<^verbatim>\<open>id\<close>; record fields are global constants in HOL and \<open>id\<close> is the identity function, so
  the two fields are \<open>msg_id\<close> and \<open>sess_id\<close>. A JavaScript string is a sequence of UTF-16
  code units; it is modelled as \<open>string\<close>, one \<open>char\<close> standing for one code unit, so that
  \<^verbatim>\<open>content.slice(0, 30)\<close> is \<open>take 30\<close>. Timestamps (\<^verbatim>\<open>Date.now()\<close>) are naturals.
\<close>

datatype role = User_role | Assistant_role

datatype app_view = Chat | Workspace

record message =
  msg_id :: string
  role :: role
  content :: string
  timestamp :: nat

record chat_session =
  sess_id :: string
  title :: string
  messages :: "message list"
  updatedAt :: nat

record user =
  email :: string
  name :: string

section \<open>The collaborators as seen from the component\<close>

text \<open>
  The row handed to \<^verbatim>\<open>supabase.from('sessions').upsert\<close> by \<^verbatim>\<open>saveSessionToSupabase\<close>.
\<close>

record session_row =
  row_id :: string
  row_user_id :: string
  row_title :: string
  row_messages :: "message list"
  row_updated_at :: nat

text \<open>
  What the persistence backend answers during one call of \<^verbatim>\<open>saveSessionToSupabase\<close>:
  the identity returned by \<^verbatim>\<open>supabase.auth.getUser()\<close> (\<open>None\<close> when nobody is signed in),
  the \<^verbatim>\<open>error\<close> of the upsert (\<open>None\<close> when it succeeded) and the clock read for
  \<^verbatim>\<open>updated_at\<close>.
\<close>

record save_env =
  getUser :: "string option"
  upsert_error :: "string option"
  save_now :: nat

text \<open>
  The session object of the auth client: \<^verbatim>\<open>session.user.email\<close> and
  \<^verbatim>\<open>session.user.user_metadata.full_name\<close>, either of which may be undefined.
\<close>

record auth_session =
  session_email :: "string option"
  session_full_name :: "string option"

text \<open>
  A call of an async function whose promise the caller does not await: the caller goes
  on (and returns) without its result, and the call runs to its end afterwards.
\<close>

datatype task = SaveSession chat_session

section \<open>Component state\<close>

text \<open>
  The \<^verbatim>\<open>useState\<close> cells of \<^verbatim>\<open>App\<close>, followed by the effects of the component on its
  collaborators, in call order: the rows passed to \<^verbatim>\<open>upsert\<close>, the arguments of the calls of
  \<^verbatim>\<open>sendMessageToGemini\<close>, and the lines written with \<^verbatim>\<open>console.error\<close>.
\<close>

record app_state =
  user :: "user option"
  sessions :: "chat_session list"
  currentSessionId :: "string option"
  isLoading :: bool
  view :: app_view
  isSettingsOpen :: bool
  isSidebarOpen :: bool
  upserts :: "session_row list"
  completions :: "(message list \<times> string) list"
  console :: "string list"

section \<open>JavaScript helpers\<close>

text \<open>\<^verbatim>\<open>!x\<close> for \<^verbatim>\<open>x: string | null\<close> is false exactly for a non-empty string.\<close>

definition truthy :: "string option \<Rightarrow> bool" where
  "truthy x = (case x of None \<Rightarrow> False | Some v \<Rightarrow> v \<noteq> [])"

text \<open>\<^verbatim>\<open>x || d\<close> for a string that may be undefined.\<close>

definition js_or :: "string option \<Rightarrow> string \<Rightarrow> string" where
  "js_or x d = (case x of None \<Rightarrow> d | Some v \<Rightarrow> if v = [] then d else v)"

text \<open>\<^verbatim>\<open>sessions.find(s => s.id === i)\<close>: the first session with that id, if any.\<close>

definition find_session :: "string \<Rightarrow> chat_session list \<Rightarrow> chat_session option" where
  "find_session i xs = find (\<lambda>x. sess_id x = i) xs"

text \<open>\<^verbatim>\<open>prev.map(s => s.id === i ? u : s)\<close>: every session with that id is replaced.\<close>

definition replace_session :: "string \<Rightarrow> chat_session \<Rightarrow> chat_session list \<Rightarrow> chat_session list" where
  "replace_session i u xs = map (\<lambda>x. if sess_id x = i then u else x) xs"

section \<open>Auth-state listener and session fetch\<close>

text \<open>The callback given to \<^verbatim>\<open>supabase.auth.onAuthStateChange\<close>.\<close>

definition onAuthStateChange :: "auth_session option \<Rightarrow> app_state \<Rightarrow> app_state" where
  "onAuthStateChange session s =
     (case session of
        Some a \<Rightarrow>
          s\<lparr>user := Some \<lparr>email = js_or (session_email a) [],
                           name = js_or (session_full_name a) ''User''\<rparr>\<rparr>
      | None \<Rightarrow> s\<lparr>user := None, sessions := [], currentSessionId := None\<rparr>)"

text \<open>
  The effect that depends on \<^verbatim>\<open>[user]\<close>. \<open>user_c\<close> and \<open>currentSessionId_c\<close> are the
  values of the render in which the effect was set up (the closure of \<^verbatim>\<open>fetchSessions\<close>);
  \<open>res\<close> is the answer of the query, \<open>Inl\<close> its error; \<open>s\<close> is the state when the answer
  arrives.
\<close>

definition fetchSessions ::
  "user option \<Rightarrow> string option \<Rightarrow> string + chat_session list \<Rightarrow> app_state \<Rightarrow> app_state" where
  "fetchSessions user_c currentSessionId_c res s =
     (case user_c of
        None \<Rightarrow> s
      | Some _ \<Rightarrow>
          (case res of
             Inl err \<Rightarrow> s\<lparr>console := console s @ [''Error fetching sessions:'']\<rparr>
           | Inr data \<Rightarrow>
               (let s1 = s\<lparr>sessions := data\<rparr>
                in case data of
                     [] \<Rightarrow> s1
                   | d # _ \<Rightarrow>
                       if \<not> truthy currentSessionId_c
                       then s1\<lparr>currentSessionId := Some (sess_id d)\<rparr> else s1)))"

section \<open>Persistence\<close>

text \<open>
  \<^verbatim>\<open>saveSessionToSupabase\<close>: nothing is written without a signed-in identity; an error of
  the upsert is thrown, caught and logged inside the function and reaches no caller.
  \<^verbatim>\<open>supabase.auth.getUser()\<close> is taken to answer, with a user or without one, so the
  function always returns.
\<close>

definition saveSessionToSupabase :: "save_env \<Rightarrow> chat_session \<Rightarrow> app_state \<Rightarrow> app_state" where
  "saveSessionToSupabase e session s =
     (case getUser e of
        None \<Rightarrow> s
      | Some uid \<Rightarrow>
          (let s1 = s\<lparr>upserts := upserts s @
                        [\<lparr>row_id = sess_id session, row_user_id = uid,
                          row_title = title session, row_messages = messages session,
                          row_updated_at = save_now e\<rparr>]\<rparr>
           in case upsert_error e of
                None \<Rightarrow> s1
              | Some err \<Rightarrow> s1\<lparr>console := console s1 @ [''Error saving to Supabase:'']\<rparr>))"

text \<open>Running a call that was not awaited, once its caller has returned.\<close>

fun run_task :: "save_env \<Rightarrow> task \<Rightarrow> app_state \<Rightarrow> app_state" where
  "run_task e (SaveSession x) s = saveSessionToSupabase e x s"

section \<open>Session creation and selection\<close>

text \<open>
  \<^verbatim>\<open>handleNewChat\<close>. \<open>uuid\<close> is the value of \<^verbatim>\<open>crypto.randomUUID()\<close>, \<open>now\<close> of
  \<^verbatim>\<open>Date.now()\<close>, \<open>innerWidth\<close> of \<^verbatim>\<open>window.innerWidth\<close>. The call of
  \<^verbatim>\<open>saveSessionToSupabase\<close> is not awaited: it is returned as a task.
\<close>

definition handleNewChat :: "string \<Rightarrow> nat \<Rightarrow> nat \<Rightarrow> app_state \<Rightarrow> app_state \<times> task list" where
  "handleNewChat uuid now innerWidth s =
     (let newSession = \<lparr>sess_id = uuid, title = ''New Chat'', messages = [], updatedAt = now\<rparr>;
          s1 = s\<lparr>view := Chat\<rparr>;
          s2 = s1\<lparr>currentSessionId := Some uuid\<rparr>;
          s3 = s2\<lparr>sessions := newSession # sessions s2\<rparr>;
          s4 = (if innerWidth < 768 then s3\<lparr>isSidebarOpen := False\<rparr> else s3)
      in (s4, [SaveSession newSession]))"

text \<open>The \<^verbatim>\<open>onSelectSession\<close> callback handed to the sidebar.\<close>

definition onSelectSession :: "string \<Rightarrow> nat \<Rightarrow> app_state \<Rightarrow> app_state" where
  "onSelectSession i innerWidth s =
     (let s1 = s\<lparr>view := Chat\<rparr>;
          s2 = s1\<lparr>currentSessionId := Some i\<rparr>
      in if innerWidth < 768 then s2\<lparr>isSidebarOpen := False\<rparr> else s2)"

section \<open>Sending a message\<close>

text \<open>
  Everything \<^verbatim>\<open>handleSendMessage\<close> reads from outside during one call: the three values of
  \<^verbatim>\<open>crypto.randomUUID()\<close>, the six of \<^verbatim>\<open>Date.now()\<close> (in source order), the answers of
  the persistence backend to the save at creation and to the save of the final session,
  and the outcome of \<^verbatim>\<open>sendMessageToGemini\<close> (\<open>Inl\<close> when it throws, \<open>Inr\<close> the text).
\<close>

record send_env =
  sessionUUID :: string
  userMsgUUID :: string
  aiMsgUUID :: string
  now_created :: nat
  now_userMsg :: nat
  now_fallback :: nat
  now_updated :: nat
  now_aiMsg :: nat
  now_final :: nat
  save_created :: save_env
  completion :: "string + string"
  save_final :: save_env

text \<open>The variable \<^verbatim>\<open>activeSessionId\<close> once the creation branch is over.\<close>

definition activeSessionId :: "send_env \<Rightarrow> string option \<Rightarrow> string" where
  "activeSessionId e currentSessionId_c =
     (case currentSessionId_c of
        None \<Rightarrow> sessionUUID e
      | Some i \<Rightarrow> if i = [] then sessionUUID e else i)"

text \<open>The session built inside the creation branch.\<close>

definition newSession :: "send_env \<Rightarrow> string \<Rightarrow> chat_session" where
  "newSession e text =
     \<lparr>sess_id = sessionUUID e, title = take 30 text @ ''...'', messages = [],
      updatedAt = now_created e\<rparr>"

text \<open>
  The creation branch, up to and including the awaited \<^verbatim>\<open>saveSessionToSupabase\<close>:
  the rest of the handler runs only after the save has returned. \<open>sessions_c\<close> and
  \<open>currentSessionId_c\<close> are the values of the render that created the handler.
\<close>

definition createIfNone ::
  "chat_session list \<Rightarrow> string option \<Rightarrow> send_env \<Rightarrow> string \<Rightarrow> app_state \<Rightarrow> app_state" where
  "createIfNone sessions_c currentSessionId_c e text s =
     (if \<not> truthy currentSessionId_c
      then saveSessionToSupabase (save_created e) (newSession e text)
             (s\<lparr>sessions := newSession e text # sessions_c,
                currentSessionId := Some (sessionUUID e)\<rparr>)
      else s)"

definition userMessage :: "send_env \<Rightarrow> string \<Rightarrow> message" where
  "userMessage e text =
     \<lparr>msg_id = userMsgUUID e, role = User_role, content = text, timestamp = now_userMsg e\<rparr>"

definition targetSession ::
  "chat_session list \<Rightarrow> string option \<Rightarrow> send_env \<Rightarrow> string \<Rightarrow> chat_session" where
  "targetSession sessions_c currentSessionId_c e text =
     (case find_session (activeSessionId e currentSessionId_c) sessions_c of
        Some x \<Rightarrow> x
      | None \<Rightarrow> \<lparr>sess_id = activeSessionId e currentSessionId_c, title = take 30 text,
                 messages = [], updatedAt = now_fallback e\<rparr>)"

definition updatedSession ::
  "chat_session list \<Rightarrow> string option \<Rightarrow> send_env \<Rightarrow> string \<Rightarrow> chat_session" where
  "updatedSession sessions_c currentSessionId_c e text =
     (let t = targetSession sessions_c currentSessionId_c e text
      in t\<lparr>messages := messages t @ [userMessage e text],
            updatedAt := now_updated e,
            title := (if messages t = [] then take 30 text else title t)\<rparr>)"

definition aiMessage :: "send_env \<Rightarrow> string \<Rightarrow> message" where
  "aiMessage e aiResponseText =
     \<lparr>msg_id = aiMsgUUID e, role = Assistant_role, content = aiResponseText,
      timestamp = now_aiMsg e\<rparr>"

definition finalSession ::
  "chat_session list \<Rightarrow> string option \<Rightarrow> send_env \<Rightarrow> string \<Rightarrow> string \<Rightarrow> chat_session" where
  "finalSession sessions_c currentSessionId_c e text aiResponseText =
     (let u = updatedSession sessions_c currentSessionId_c e text
      in u\<lparr>messages := messages u @ [aiMessage e aiResponseText],
            updatedAt := now_final e\<rparr>)"

text \<open>
  \<^verbatim>\<open>handleSendMessage\<close>. A \<^verbatim>\<open>setSessions(prev => ...)\<close> acts on the state at that moment,
  \<^verbatim>\<open>setSessions([newSession, ...sessions])\<close> on the list of the closure. The \<^verbatim>\<open>try\<close> block
  is the \<open>Inr\<close> branch, the \<^verbatim>\<open>catch\<close> block the \<open>Inl\<close> branch, and the \<^verbatim>\<open>finally\<close> block the
  last update.
\<close>

definition handleSendMessage ::
  "chat_session list \<Rightarrow> string option \<Rightarrow> send_env \<Rightarrow> string \<Rightarrow> app_state \<Rightarrow> app_state" where
  "handleSendMessage sessions_c currentSessionId_c e text s =
     (let a = activeSessionId e currentSessionId_c;
          s1 = createIfNone sessions_c currentSessionId_c e text s;
          u = updatedSession sessions_c currentSessionId_c e text;
          s2 = s1\<lparr>sessions := replace_session a u (sessions s1)\<rparr>;
          s3 = s2\<lparr>isLoading := True\<rparr>;
          s4 = s3\<lparr>completions := completions s3 @ [(messages u, text)]\<rparr>;
          s5 = (case completion e of
                  Inr aiResponseText \<Rightarrow>
                    (let f = finalSession sessions_c currentSessionId_c e text aiResponseText
                     in saveSessionToSupabase (save_final e) f
                          (s4\<lparr>sessions := replace_session a f (sessions s4)\<rparr>))
                | Inl err \<Rightarrow> s4\<lparr>console := console s4 @ [err]\<rparr>)
      in s5\<lparr>isLoading := False\<rparr>)"

text \<open>
  A call of the handler of the current render with nothing else running in between:
  the closure holds the session list and the selection of the state itself.
\<close>

definition sendMessage :: "send_env \<Rightarrow> string \<Rightarrow> app_state \<Rightarrow> app_state" where
  "sendMessage e text s = handleSendMessage (sessions s) (currentSessionId s) e text s"

text \<open>The messages of the session that \<^verbatim>\<open>find\<close> returns for an id; none when there is no such session.\<close>

definition session_messages :: "string \<Rightarrow> app_state \<Rightarrow> message list" where
  "session_messages i s =
     (case find_session i (sessions s) of None \<Rightarrow> [] | Some x \<Rightarrow> messages x)"

section \<open>Derived notions used in the statements\<close>

text \<open>
  The rows one call of \<^verbatim>\<open>saveSessionToSupabase\<close> passes to \<^verbatim>\<open>upsert\<close>: one row when
  somebody is signed in, none otherwise.
\<close>

definition save_rows :: "save_env \<Rightarrow> chat_session \<Rightarrow> session_row list" where
  "save_rows e x =
     (case getUser e of
        None \<Rightarrow> []
      | Some uid \<Rightarrow> [\<lparr>row_id = sess_id x, row_user_id = uid, row_title = title x,
                      row_messages = messages x, row_updated_at = save_now e\<rparr>])"

text \<open>The session list once the creation branch of \<open>sendMessage\<close> is over.\<close>

definition base_sessions :: "send_env \<Rightarrow> string \<Rightarrow> app_state \<Rightarrow> chat_session list" where
  "base_sessions e text s =
     (if truthy (currentSessionId s) then sessions s else newSession e text # sessions s)"

text \<open>
  The selection names a session of the list, or counts as no selection for the
  handler (\<open>None\<close>, or the empty string, which \<^verbatim>\<open>!activeSessionId\<close> treats alike).
\<close>

definition selection_ok :: "app_state \<Rightarrow> bool" where
  "selection_ok s =
     (case currentSessionId s of
        None \<Rightarrow> True
      | Some i \<Rightarrow> i = [] \<or> find_session i (sessions s) \<noteq> None)"

section \<open>Concrete inputs\<close>

definition ex_save :: save_env where
  "ex_save = \<lparr>getUser = Some ''u1'', upsert_error = None, save_now = 9\<rparr>"

definition ex_env_ok :: send_env where
  "ex_env_ok =
     \<lparr>sessionUUID = ''s1'', userMsgUUID = ''m1'', aiMsgUUID = ''m2'',
      now_created = 1, now_userMsg = 2, now_fallback = 3, now_updated = 4,
      now_aiMsg = 5, now_final = 6,
      save_created = ex_save, completion = Inr ''ok'', save_final = ex_save\<rparr>"

definition ex_env_fail :: send_env where
  "ex_env_fail = ex_env_ok\<lparr>completion := Inl ''timeout''\<rparr>"

text \<open>Signed in, no session yet.\<close>

definition ex_state0 :: app_state where
  "ex_state0 =
     \<lparr>user = Some \<lparr>email = ''a@b.c'', name = ''User''\<rparr>, sessions = [],
      currentSessionId = None, isLoading = False, view = Chat, isSettingsOpen = False,
      isSidebarOpen = True, upserts = [], completions = [], console = []\<rparr>"

definition ex_msgs :: "message list" where
  "ex_msgs =
     [\<lparr>msg_id = ''p1'', role = User_role, content = ''q'', timestamp = 0\<rparr>,
      \<lparr>msg_id = ''p2'', role = Assistant_role, content = ''r'', timestamp = 0\<rparr>]"

definition ex_session_a :: chat_session where
  "ex_session_a = \<lparr>sess_id = ''a'', title = ''First'', messages = ex_msgs, updatedAt = 0\<rparr>"

definition ex_session_b :: chat_session where
  "ex_session_b = \<lparr>sess_id = ''b'', title = ''New Chat'', messages = [], updatedAt = 0\<rparr>"

text \<open>Two sessions, the one with a history selected.\<close>

definition ex_state1 :: app_state where
  "ex_state1 =
     ex_state0\<lparr>sessions := [ex_session_a, ex_session_b], currentSessionId := Some ''a''\<rparr>"

text \<open>
  A new chat started in \<open>ex_state0\<close>, then an answer of the session query that does not
  hold the new session (its save has not reached the backend): line 76 replaces the
  list, line 77 keeps the selection.
\<close>

definition ex_state_refetch :: app_state where
  "ex_state_refetch =
     fetchSessions (user ex_state0) (Some ''n1'') (Inr [ex_session_a])
       (fst (handleNewChat ''n1'' 7 1024 ex_state0))"

lemmas ex_defs =
  ex_save_def ex_env_ok_def ex_env_fail_def ex_state0_def ex_state1_def ex_msgs_def
  ex_session_a_def ex_session_b_def
  sendMessage_def handleSendMessage_def createIfNone_def activeSessionId_def newSession_def
  userMessage_def targetSession_def updatedSession_def aiMessage_def finalSession_def
  saveSessionToSupabase_def find_session_def replace_session_def truthy_def
  session_messages_def selection_ok_def save_rows_def Let_def

section \<open>Lemmas about the handlers\<close>

lemma save_sessions [simp]: "sessions (saveSessionToSupabase e x s) = sessions s"
  by (simp add: saveSessionToSupabase_def Let_def split: option.splits)

lemma save_currentSessionId [simp]:
  "currentSessionId (saveSessionToSupabase e x s) = currentSessionId s"
  by (simp add: saveSessionToSupabase_def Let_def split: option.splits)

lemma save_completions [simp]: "completions (saveSessionToSupabase e x s) = completions s"
  by (simp add: saveSessionToSupabase_def Let_def split: option.splits)

lemma save_isLoading [simp]: "isLoading (saveSessionToSupabase e x s) = isLoading s"
  by (simp add: saveSessionToSupabase_def Let_def split: option.splits)

lemma save_upserts: "upserts (saveSessionToSupabase e x s) = upserts s @ save_rows e x"
  by (simp add: saveSessionToSupabase_def save_rows_def Let_def split: option.splits)

lemma find_session_replace:
  "sess_id u = a \<Longrightarrow>
   find_session i (replace_session a u xs) =
     (if i = a then (case find_session a xs of None \<Rightarrow> None | Some _ \<Rightarrow> Some u)
      else find_session i xs)"
  by (induction xs) (auto simp: find_session_def replace_session_def)

lemma find_session_id: "find_session i xs = Some x \<Longrightarrow> sess_id x = i"
  by (auto simp: find_session_def find_Some_iff)

lemma find_session_mem: "find_session i xs = Some x \<Longrightarrow> x \<in> set xs"
  by (auto simp: find_session_def find_Some_iff)

lemma targetSession_id [simp]:
  "sess_id (targetSession xs c e t) = activeSessionId e c"
  by (auto simp: targetSession_def split: option.splits dest: find_session_id)

lemma updatedSession_id [simp]:
  "sess_id (updatedSession xs c e t) = activeSessionId e c"
  by (simp add: updatedSession_def Let_def)

lemma finalSession_id [simp]:
  "sess_id (finalSession xs c e t r) = activeSessionId e c"
  by (simp add: finalSession_def Let_def)

lemma sessions_createIfNone:
  "sessions (createIfNone (sessions s) (currentSessionId s) e t s) = base_sessions e t s"
  by (simp add: createIfNone_def base_sessions_def)

lemma completions_createIfNone [simp]:
  "completions (createIfNone xs c e t s) = completions s"
  by (simp add: createIfNone_def)

lemma sessions_sendMessage:
  "sessions (sendMessage e t s) =
     (case completion e of
        Inl err \<Rightarrow>
          replace_session (activeSessionId e (currentSessionId s))
            (updatedSession (sessions s) (currentSessionId s) e t) (base_sessions e t s)
      | Inr r \<Rightarrow>
          replace_session (activeSessionId e (currentSessionId s))
            (finalSession (sessions s) (currentSessionId s) e t r)
            (replace_session (activeSessionId e (currentSessionId s))
               (updatedSession (sessions s) (currentSessionId s) e t) (base_sessions e t s)))"
  by (simp add: sendMessage_def handleSendMessage_def Let_def sessions_createIfNone
      split: sum.splits)

lemma currentSessionId_sendMessage:
  "currentSessionId (sendMessage e t s) =
     (if truthy (currentSessionId s) then currentSessionId s else Some (sessionUUID e))"
  by (simp add: sendMessage_def handleSendMessage_def Let_def createIfNone_def split: sum.splits)

lemma isLoading_sendMessage: "\<not> isLoading (sendMessage e t s)"
  by (simp add: sendMessage_def handleSendMessage_def Let_def)

lemma find_base_other:
  "i \<noteq> activeSessionId e (currentSessionId s) \<Longrightarrow>
   find_session i (base_sessions e t s) = find_session i (sessions s)"
  by (auto simp: base_sessions_def find_session_def newSession_def activeSessionId_def truthy_def
      split: option.splits)

lemma find_base_active:
  "find_session (activeSessionId e (currentSessionId s)) (base_sessions e t s) = None \<longleftrightarrow>
   truthy (currentSessionId s) \<and>
   find_session (activeSessionId e (currentSessionId s)) (sessions s) = None"
  by (auto simp: base_sessions_def find_session_def newSession_def activeSessionId_def truthy_def
      split: option.splits)

lemma messages_targetSession:
  "messages (targetSession (sessions s) c e t) = session_messages (activeSessionId e c) s"
  by (simp add: targetSession_def session_messages_def split: option.splits)

lemma messages_updatedSession:
  "messages (updatedSession (sessions s) c e t) =
     session_messages (activeSessionId e c) s @ [userMessage e t]"
  by (simp add: updatedSession_def Let_def messages_targetSession)

lemma messages_finalSession:
  "messages (finalSession (sessions s) c e t r) =
     session_messages (activeSessionId e c) s @ [userMessage e t, aiMessage e r]"
  by (simp add: finalSession_def Let_def messages_updatedSession)

lemma find_active_sendMessage:
  "find_session (activeSessionId e (currentSessionId s)) (sessions (sendMessage e t s)) =
     (if truthy (currentSessionId s) \<and>
         find_session (activeSessionId e (currentSessionId s)) (sessions s) = None
      then None
      else Some (case completion e of
                   Inl err \<Rightarrow> updatedSession (sessions s) (currentSessionId s) e t
                 | Inr r \<Rightarrow> finalSession (sessions s) (currentSessionId s) e t r))"
proof -
  let ?a = "activeSessionId e (currentSessionId s)"
  have b: "(find_session ?a (base_sessions e t s) = None) =
        (truthy (currentSessionId s) \<and> find_session ?a (sessions s) = None)"
    by (rule find_base_active)
  show ?thesis
    by (cases "find_session ?a (base_sessions e t s)")
       (use b in \<open>auto simp: sessions_sendMessage find_session_replace split: sum.splits\<close>)
qed

lemma find_other_sendMessage:
  assumes "i \<noteq> activeSessionId e (currentSessionId s)"
  shows "find_session i (sessions (sendMessage e t s)) = find_session i (sessions s)"
  using assms
  by (simp add: sessions_sendMessage find_session_replace find_base_other split: sum.splits)

lemma active_of_selection:
  "selection_ok s \<Longrightarrow> truthy (currentSessionId s) \<Longrightarrow>
   find_session (activeSessionId e (currentSessionId s)) (sessions s) \<noteq> None"
  by (auto simp: selection_ok_def truthy_def activeSessionId_def split: option.splits)

lemma upserts_sendMessage:
  "upserts (sendMessage e t s) =
     upserts s @
     (if truthy (currentSessionId s) then [] else save_rows (save_created e) (newSession e t)) @
     (case completion e of
        Inl err \<Rightarrow> []
      | Inr r \<Rightarrow> save_rows (save_final e) (finalSession (sessions s) (currentSessionId s) e t r))"
  by (cases "completion e")
     (simp_all add: sendMessage_def handleSendMessage_def Let_def save_upserts createIfNone_def)

lemma save_rows_messages: "r \<in> set (save_rows e x) \<Longrightarrow> row_messages r = messages x"
  by (auto simp: save_rows_def split: option.splits)

lemma session_messages_mem:
  assumes "m \<in> set (session_messages i s)"
  shows "\<exists>y\<in>set (sessions s). m \<in> set (messages y)"
proof (cases "find_session i (sessions s)")
  case None
  with assms show ?thesis by (simp add: session_messages_def)
next
  case (Some y)
  with assms have "m \<in> set (messages y)" by (simp add: session_messages_def)
  with find_session_mem [OF Some] show ?thesis by blast
qed

lemma session_messages_failed:
  assumes "completion e = Inl err"
  shows "session_messages i (sendMessage e t s) = session_messages i s \<or>
         session_messages i (sendMessage e t s) = session_messages i s @ [userMessage e t]"
proof (cases "i = activeSessionId e (currentSessionId s)")
  case True
  let ?a = "activeSessionId e (currentSessionId s)"
  show ?thesis
  proof (cases "truthy (currentSessionId s) \<and> find_session ?a (sessions s) = None")
    case absent: True
    then have "find_session ?a (sessions (sendMessage e t s)) = None"
      by (simp add: find_active_sendMessage)
    with absent have "session_messages ?a (sendMessage e t s) = session_messages ?a s"
      by (simp add: session_messages_def)
    with True show ?thesis by simp
  next
    case present: False
    then have "find_session ?a (sessions (sendMessage e t s)) =
               Some (updatedSession (sessions s) (currentSessionId s) e t)"
      using assms by (simp add: find_active_sendMessage)
    then have "session_messages ?a (sendMessage e t s) =
               session_messages ?a s @ [userMessage e t]"
      by (simp add: session_messages_def [of ?a "sendMessage e t s"] messages_updatedSession)
    with True show ?thesis by simp
  qed
next
  case False
  then show ?thesis
    by (simp add: session_messages_def find_other_sendMessage)
qed

lemma memory_failed:
  assumes "completion e = Inl err"
    and "x \<in> set (sessions (sendMessage e t s))" and "m \<in> set (messages x)"
  shows "m = userMessage e t \<or> (\<exists>y\<in>set (sessions s). m \<in> set (messages y))"
proof -
  let ?u = "updatedSession (sessions s) (currentSessionId s) e t"
  from assms(1,2) have "x = ?u \<or> x \<in> set (base_sessions e t s)"
    by (auto simp: sessions_sendMessage replace_session_def split: if_splits)
  then show ?thesis
  proof
    assume "x = ?u"
    with assms(3) show ?thesis
      by (auto simp: messages_updatedSession dest: session_messages_mem)
  next
    assume "x \<in> set (base_sessions e t s)"
    with assms(3) show ?thesis
      by (auto simp: base_sessions_def newSession_def split: if_splits)
  qed
qed

lemma selection_ok_sendMessage:
  assumes "selection_ok s"
  shows "selection_ok (sendMessage e t s)"
proof (cases "truthy (currentSessionId s)")
  case True
  then obtain i where i: "currentSessionId s = Some i" "i \<noteq> []"
    by (auto simp: truthy_def split: option.splits)
  then have a: "activeSessionId e (currentSessionId s) = i"
    by (simp add: activeSessionId_def)
  have "find_session i (sessions (sendMessage e t s)) \<noteq> None"
    using active_of_selection [OF assms True, of e] find_active_sendMessage [of e s t]
    by (simp add: a)
  then show ?thesis
    using True i by (simp add: selection_ok_def currentSessionId_sendMessage)
next
  case False
  then have "find_session (sessionUUID e) (sessions (sendMessage e t s)) \<noteq> None"
    using find_active_sendMessage [of e s t]
    by (auto simp: truthy_def activeSessionId_def split: option.splits)
  with False show ?thesis
    by (simp add: selection_ok_def currentSessionId_sendMessage)
qed

lemma selection_ok_handleNewChat: "selection_ok (fst (handleNewChat uuid now w s))"
  by (simp add: handleNewChat_def Let_def selection_ok_def find_session_def)

text \<open>
  A selection that names no session of the list: the handler still calls the completion
  client and saves its own copy of the session, but no session of the list changes.
\<close>

lemma sendMessage_absent_selection:
  assumes "truthy (currentSessionId s)"
    and "find_session (activeSessionId e (currentSessionId s)) (sessions s) = None"
  shows "sessions (sendMessage e t s) = sessions s"
proof -
  have "\<forall>x\<in>set (sessions s). sess_id x \<noteq> activeSessionId e (currentSessionId s)"
    using assms(2) by (simp add: find_session_def find_None_iff)
  then have "replace_session (activeSessionId e (currentSessionId s)) u (sessions s) = sessions s"
    for u
    by (simp add: replace_session_def map_idI)
  with assms(1) show ?thesis
    by (simp add: sessions_sendMessage base_sessions_def split: sum.splits)
qed

section \<open>Title of a session created by the first message\<close>

text \<open>
  C1, as amended. When no session is current and the generated id is new to the list,
  \<open>sendMessage\<close> leaves the created session at the front of the list with the leading
  30 characters of the content as its title: the content itself when it has at most 30
  characters, and its first 30 characters, with nothing appended, otherwise. The title
  with the three dots is the one given at creation; the update for the first message
  writes the title again.
\<close>

theorem new_session_final_title:
  assumes "\<not> truthy (currentSessionId s)"
    and "sessionUUID e \<notin> sess_id ` set (sessions s)"
  shows "\<exists>x xs. sessions (sendMessage e t s) = x # xs \<and> sess_id x = sessionUUID e \<and>
           title x = (if length t \<le> 30 then t else take 30 t)"
proof -
  have a: "activeSessionId e (currentSessionId s) = sessionUUID e"
    using assms(1) by (auto simp: truthy_def activeSessionId_def split: option.splits)
  have nf: "find_session (sessionUUID e) (sessions s) = None"
    using assms(2) by (auto simp: find_session_def find_None_iff image_iff)
  have tu: "title (updatedSession (sessions s) (currentSessionId s) e t) = take 30 t"
    by (simp add: updatedSession_def targetSession_def Let_def a nf)
  have tf: "title (finalSession (sessions s) (currentSessionId s) e t r) = take 30 t" for r
    by (simp add: finalSession_def Let_def tu)
  have b: "base_sessions e t s = newSession e t # sessions s"
    using assms(1) by (simp add: base_sessions_def)
  have i: "sess_id (newSession e t) = sessionUUID e"
    by (simp add: newSession_def)
  show ?thesis
    using updatedSession_id [of "sessions s" "currentSessionId s" e t]
          finalSession_id [of "sessions s" "currentSessionId s" e t]
    by (cases "completion e") (simp_all add: sessions_sendMessage a b i replace_session_def tu tf)
qed

text \<open>The scenario of the specification: a short first message becomes the title.\<close>

theorem new_session_final_title_witness:
  "\<not> truthy (currentSessionId ex_state0) \<and>
   sessionUUID ex_env_ok \<notin> sess_id ` set (sessions ex_state0) \<and>
   (\<exists>x xs. sessions (sendMessage ex_env_ok ''Write a Go HTTP server'' ex_state0) = x # xs \<and>
      sess_id x = ''s1'' \<and> title x = ''Write a Go HTTP server'')"
  using new_session_final_title [of ex_state0 ex_env_ok "''Write a Go HTTP server''"]
  by (simp add: ex_state0_def ex_env_ok_def truthy_def)

text \<open>
  A first message of 31 characters: the final title is its first 30 characters, not
  those 30 characters followed by an ellipsis.
\<close>

theorem new_session_final_title_counterexample:
  "title (hd (sessions (sendMessage ex_env_ok ''Write a Go HTTP server with TLS'' ex_state0))) =
     ''Write a Go HTTP server with TL'' \<and>
   title (hd (sessions (sendMessage ex_env_ok ''Write a Go HTTP server with TLS'' ex_state0))) \<noteq>
     take 30 ''Write a Go HTTP server with TLS'' @ ''...''"
  by (simp add: ex_defs)

section \<open>Growth of the message sequence\<close>

text \<open>
  C2, as amended. For a call of \<open>sendMessage\<close> in a state whose selection names a
  session of the list (or where none is selected, so that the call creates the session),
  the messages of the target session afterwards are those before followed by the new
  user message and, when the completion request succeeded, by the assistant message: the
  count grows by exactly 2 on success and by exactly 1 on failure.
\<close>

theorem sendMessage_message_count:
  assumes "selection_ok s"
  shows "session_messages (activeSessionId e (currentSessionId s)) (sendMessage e t s) =
           session_messages (activeSessionId e (currentSessionId s)) s @
             (case completion e of
                Inr r \<Rightarrow> [userMessage e t, aiMessage e r]
              | Inl err \<Rightarrow> [userMessage e t]) \<and>
         length (session_messages (activeSessionId e (currentSessionId s)) (sendMessage e t s)) =
           length (session_messages (activeSessionId e (currentSessionId s)) s) +
             (case completion e of Inr r \<Rightarrow> 2 | Inl err \<Rightarrow> 1) \<and>
         role (userMessage e t) = User_role \<and>
         (\<forall>r. role (aiMessage e r) = Assistant_role)"
proof -
  let ?a = "activeSessionId e (currentSessionId s)"
  have pres: "\<not> (truthy (currentSessionId s) \<and> find_session ?a (sessions s) = None)"
    using active_of_selection [OF assms] by blast
  have m: "session_messages ?a (sendMessage e t s) =
           session_messages ?a s @
             (case completion e of
                Inr r \<Rightarrow> [userMessage e t, aiMessage e r]
              | Inl err \<Rightarrow> [userMessage e t])"
    unfolding session_messages_def [of ?a "sendMessage e t s"] find_active_sendMessage
    using pres
    by (simp add: messages_updatedSession messages_finalSession split: sum.splits)
  show ?thesis
    by (simp add: m userMessage_def aiMessage_def split: sum.splits)
qed

theorem sendMessage_message_count_witness:
  "selection_ok ex_state1 \<and>
   length (session_messages ''a'' (sendMessage ex_env_ok ''hi'' ex_state1)) =
     length (session_messages ''a'' ex_state1) + 2 \<and>
   length (session_messages ''a'' (sendMessage ex_env_fail ''hi'' ex_state1)) =
     length (session_messages ''a'' ex_state1) + 1"
proof -
  have ok: "selection_ok ex_state1"
    by (simp add: ex_defs)
  have a: "activeSessionId e (currentSessionId ex_state1) = ''a''" for e
    by (simp add: ex_defs)
  show ?thesis
    using ok sendMessage_message_count [OF ok, of ex_env_ok "''hi''"]
      sendMessage_message_count [OF ok, of ex_env_fail "''hi''"]
    by (simp add: a ex_env_ok_def ex_env_fail_def)
qed

text \<open>
  A selection that names no session of the list, as left by a new chat followed by an
  answer of the session query without it. A successful send there changes no session of
  the list, so the count for the target id stays 0 instead of growing by 2, while the
  completion client is called and a row with the two messages is written.
\<close>

theorem sendMessage_message_count_counterexample:
  "currentSessionId ex_state_refetch = Some ''n1'' \<and>
   sessions ex_state_refetch = [ex_session_a] \<and>
   \<not> selection_ok ex_state_refetch \<and>
   activeSessionId ex_env_ok (currentSessionId ex_state_refetch) = ''n1'' \<and>
   completion ex_env_ok = Inr ''ok'' \<and>
   sessions (sendMessage ex_env_ok ''hi'' ex_state_refetch) = [ex_session_a] \<and>
   length (session_messages ''n1'' ex_state_refetch) = 0 \<and>
   length (session_messages ''n1'' (sendMessage ex_env_ok ''hi'' ex_state_refetch)) = 0 \<and>
   length (session_messages ''n1'' (sendMessage ex_env_ok ''hi'' ex_state_refetch)) \<noteq>
     length (session_messages ''n1'' ex_state_refetch) + 2 \<and>
   length (completions (sendMessage ex_env_ok ''hi'' ex_state_refetch)) = 1 \<and>
   map (\<lambda>r. (row_id r, length (row_messages r)))
     (upserts (sendMessage ex_env_ok ''hi'' ex_state_refetch)) = [(''n1'', 2)]"
  by (simp add: ex_defs ex_state_refetch_def fetchSessions_def handleNewChat_def)

section \<open>A failed completion request\<close>

text \<open>
  C3. The loading flag is false after \<open>sendMessage\<close> whatever the outcome. When the
  completion client throws, every session's message sequence is what it was or what it
  was followed by the new user message, every message held in memory afterwards is that
  user message or was there before, and every row written by the call carries an empty
  message sequence, hence no assistant message.
\<close>

theorem completion_failure:
  "\<not> isLoading (sendMessage e t s) \<and>
   (completion e = Inl err \<longrightarrow>
      (\<forall>i. session_messages i (sendMessage e t s) = session_messages i s \<or>
           session_messages i (sendMessage e t s) = session_messages i s @ [userMessage e t]) \<and>
      (\<forall>x\<in>set (sessions (sendMessage e t s)). \<forall>m\<in>set (messages x).
          m = userMessage e t \<or> (\<exists>y\<in>set (sessions s). m \<in> set (messages y))) \<and>
      role (userMessage e t) = User_role \<and>
      (\<exists>rows. upserts (sendMessage e t s) = upserts s @ rows \<and>
              (\<forall>r\<in>set rows. row_messages r = [])))"
proof (intro conjI impI)
  show "\<not> isLoading (sendMessage e t s)" by (rule isLoading_sendMessage)
next
  assume f: "completion e = Inl err"
  show "\<forall>i. session_messages i (sendMessage e t s) = session_messages i s \<or>
          session_messages i (sendMessage e t s) = session_messages i s @ [userMessage e t]"
    using session_messages_failed [OF f] by blast
next
  assume f: "completion e = Inl err"
  show "\<forall>x\<in>set (sessions (sendMessage e t s)). \<forall>m\<in>set (messages x).
          m = userMessage e t \<or> (\<exists>y\<in>set (sessions s). m \<in> set (messages y))"
    using memory_failed [OF f] by blast
next
  show "role (userMessage e t) = User_role" by (simp add: userMessage_def)
next
  assume f: "completion e = Inl err"
  let ?rows = "if truthy (currentSessionId s) then []
               else save_rows (save_created e) (newSession e t)"
  have "upserts (sendMessage e t s) = upserts s @ ?rows"
    by (simp add: upserts_sendMessage f)
  moreover have "\<forall>r\<in>set ?rows. row_messages r = []"
    by (auto simp: newSession_def dest: save_rows_messages)
  ultimately show "\<exists>rows. upserts (sendMessage e t s) = upserts s @ rows \<and>
                     (\<forall>r\<in>set rows. row_messages r = [])"
    by blast
qed

theorem completion_failure_witness:
  "completion ex_env_fail = Inl ''timeout'' \<and>
   \<not> isLoading (sendMessage ex_env_fail ''hi'' ex_state1) \<and>
   session_messages ''a'' (sendMessage ex_env_fail ''hi'' ex_state1) =
     ex_msgs @ [userMessage ex_env_fail ''hi''] \<and>
   upserts (sendMessage ex_env_fail ''hi'' ex_state1) = []"
  using completion_failure [of ex_env_fail "''hi''" ex_state1 "''timeout''"]
  by (simp add: ex_defs)

section \<open>Invariance of the title\<close>

text \<open>
  C4. For every session of the list, \<open>sendMessage\<close> leaves a session with the same id
  whose title is unchanged, unless the session is the target of the call and has no
  message yet, in which case the title becomes the leading 30 characters of the
  content. In particular a session with a non-empty message sequence keeps its title.
\<close>

theorem title_invariant:
  assumes "find_session i (sessions s) = Some x"
  shows "\<exists>y. find_session i (sessions (sendMessage e t s)) = Some y \<and>
           title y = (if messages x = [] \<and> i = activeSessionId e (currentSessionId s)
                      then take 30 t else title x)"
proof (cases "i = activeSessionId e (currentSessionId s)")
  case True
  have tg: "targetSession (sessions s) (currentSessionId s) e t = x"
    using assms True by (simp add: targetSession_def)
  have tu: "title (updatedSession (sessions s) (currentSessionId s) e t) =
            (if messages x = [] then take 30 t else title x)"
    by (simp add: updatedSession_def Let_def tg)
  have tf: "title (finalSession (sessions s) (currentSessionId s) e t r) =
            (if messages x = [] then take 30 t else title x)" for r
    by (simp add: finalSession_def Let_def tu)
  show ?thesis
    using assms True
    by (cases "completion e") (simp_all add: find_active_sendMessage tu tf)
next
  case False
  then show ?thesis
    using assms by (simp add: find_other_sendMessage)
qed

theorem title_invariant_witness:
  "find_session ''a'' (sessions ex_state1) = Some ex_session_a \<and>
   messages ex_session_a \<noteq> [] \<and>
   (\<exists>y. find_session ''a'' (sessions (sendMessage ex_env_ok ''hi'' ex_state1)) = Some y \<and>
        title y = title ex_session_a)"
proof -
  have f: "find_session ''a'' (sessions ex_state1) = Some ex_session_a"
    by (simp add: ex_defs)
  have m: "messages ex_session_a \<noteq> []"
    by (simp add: ex_defs)
  show ?thesis
    using f m title_invariant [OF f, of ex_env_ok "''hi''"] by simp
qed

section \<open>Selection and sign-out\<close>

text \<open>
  C5. Selecting a session makes the given id the current one and leaves the session
  list, and with it every session's message sequence, as it was.
\<close>

theorem onSelectSession_frame:
  "currentSessionId (onSelectSession i w s) = Some i \<and>
   sessions (onSelectSession i w s) = sessions s"
  by (simp add: onSelectSession_def Let_def)

text \<open>
  C6. When the auth state changes to signed-out, the session list becomes empty and
  no session is current, whatever the state was.
\<close>

theorem sign_out_clears:
  "sessions (onAuthStateChange None s) = [] \<and>
   currentSessionId (onAuthStateChange None s) = None \<and>
   user (onAuthStateChange None s) = None"
  by (simp add: onAuthStateChange_def)

section \<open>Session creation\<close>

text \<open>
  C7, as amended. \<open>handleNewChat\<close> puts a session with the generated id, the title
  \<^verbatim>\<open>New Chat\<close>, no messages and the current time at the front of the list, makes it
  current, and hands the save over without waiting for it: the handler itself writes
  nothing, and the row of the new session is written when the pending save runs. The
  creation inside \<open>handleSendMessage\<close>, taken when no session is current,
  puts a session with the generated id, no messages and the current time at the front of
  the list of its closure and makes it current, but its title is the leading 30
  characters of the content followed by three dots, and the save is awaited: its write
  has been made when the branch ends.
\<close>

theorem session_creation:
  "sessions (fst (handleNewChat uuid now w s)) =
     \<lparr>sess_id = uuid, title = ''New Chat'', messages = [], updatedAt = now\<rparr> # sessions s \<and>
   currentSessionId (fst (handleNewChat uuid now w s)) = Some uuid \<and>
   upserts (fst (handleNewChat uuid now w s)) = upserts s \<and>
   snd (handleNewChat uuid now w s) =
     [SaveSession \<lparr>sess_id = uuid, title = ''New Chat'', messages = [], updatedAt = now\<rparr>] \<and>
   upserts (run_task env
              (SaveSession \<lparr>sess_id = uuid, title = ''New Chat'', messages = [], updatedAt = now\<rparr>)
              (fst (handleNewChat uuid now w s))) =
     upserts s @
       save_rows env \<lparr>sess_id = uuid, title = ''New Chat'', messages = [], updatedAt = now\<rparr> \<and>
   (\<not> truthy c \<longrightarrow>
      sessions (createIfNone xs c e t s) =
        \<lparr>sess_id = sessionUUID e, title = take 30 t @ ''...'', messages = [],
         updatedAt = now_created e\<rparr> # xs \<and>
      currentSessionId (createIfNone xs c e t s) = Some (sessionUUID e) \<and>
      upserts (createIfNone xs c e t s) =
        upserts s @ save_rows (save_created e) (newSession e t))"
  by (simp add: handleNewChat_def Let_def createIfNone_def newSession_def save_upserts)

theorem session_creation_witness:
  "\<not> truthy None \<and>
   sessions (createIfNone [] None ex_env_ok ''hi'' ex_state0) =
     [\<lparr>sess_id = ''s1'', title = ''hi...'', messages = [], updatedAt = 1\<rparr>] \<and>
   currentSessionId (createIfNone [] None ex_env_ok ''hi'' ex_state0) = Some ''s1'' \<and>
   sessions (fst (handleNewChat ''n1'' 7 1024 ex_state0)) =
     [\<lparr>sess_id = ''n1'', title = ''New Chat'', messages = [], updatedAt = 7\<rparr>]"
  using session_creation
    [where uuid = "''n1''" and now = 7 and w = 1024 and s = ex_state0 and env = ex_save
       and c = None and xs = "[]" and e = ex_env_ok and t = "''hi''"]
  by (simp add: ex_state0_def ex_env_ok_def truthy_def)

text \<open>
  The creation inside \<open>handleSendMessage\<close> for the message \<^verbatim>\<open>hi\<close>: the title is not the
  placeholder, and the row of the new session has been written when the branch ends,
  whereas \<open>handleNewChat\<close> in the same state returns with the save still to run and
  nothing written.
\<close>

theorem session_creation_counterexample:
  "title (hd (sessions (createIfNone [] None ex_env_ok ''hi'' ex_state0))) = ''hi...'' \<and>
   title (hd (sessions (createIfNone [] None ex_env_ok ''hi'' ex_state0))) \<noteq> ''New Chat'' \<and>
   upserts (createIfNone [] None ex_env_ok ''hi'' ex_state0) =
     [\<lparr>row_id = ''s1'', row_user_id = ''u1'', row_title = ''hi...'', row_messages = [],
       row_updated_at = 9\<rparr>] \<and>
   upserts (fst (handleNewChat ''n1'' 7 1024 ex_state0)) = [] \<and>
   snd (handleNewChat ''n1'' 7 1024 ex_state0) =
     [SaveSession \<lparr>sess_id = ''n1'', title = ''New Chat'', messages = [], updatedAt = 7\<rparr>]"
  by (simp add: ex_defs handleNewChat_def)

section \<open>Input of the completion client\<close>

text \<open>
  C8, as amended. Every \<open>sendMessage\<close> calls the completion client exactly once, and the
  history it passes is the target session's earlier messages followed by the new user
  message (the updated history, the new user turn included), together with the new
  user text.
\<close>

theorem completion_input:
  "completions (sendMessage e t s) =
     completions s @
       [(session_messages (activeSessionId e (currentSessionId s)) s @ [userMessage e t], t)]"
  by (cases "completion e")
     (simp_all add: sendMessage_def handleSendMessage_def Let_def completions_createIfNone
        messages_updatedSession)

text \<open>
  A message sent to a session with two earlier turns: the history passed has three
  messages, the last of them the new user message; it is not the two earlier turns.
\<close>

theorem completion_input_counterexample:
  "completions (sendMessage ex_env_ok ''hi'' ex_state1) =
     [(ex_msgs @ [\<lparr>msg_id = ''m1'', role = User_role, content = ''hi'', timestamp = 2\<rparr>], ''hi'')] \<and>
   completions (sendMessage ex_env_ok ''hi'' ex_state1) \<noteq> [(ex_msgs, ''hi'')]"
  by (simp add: ex_defs)

section \<open>Loading the sessions after sign-in\<close>

text \<open>
  C9. With a signed-in user, when the query answers a non-empty list and the effect saw
  no current session, the session list becomes the fetched list and its first session
  becomes current; when the query fails, the session list and the selection stay as
  they were.
\<close>

theorem fetchSessions_selects_first:
  assumes "data \<noteq> []" and "currentSessionId_c = None"
  shows "sessions (fetchSessions (Some u) currentSessionId_c (Inr data) s) = data \<and>
         currentSessionId (fetchSessions (Some u) currentSessionId_c (Inr data) s) =
           Some (sess_id (hd data)) \<and>
         sessions (fetchSessions (Some u) c (Inl err) s) = sessions s \<and>
         currentSessionId (fetchSessions (Some u) c (Inl err) s) = currentSessionId s"
  using assms
  by (cases data) (simp_all add: fetchSessions_def truthy_def Let_def)

theorem fetchSessions_selects_first_witness:
  "[ex_session_a, ex_session_b] \<noteq> [] \<and>
   sessions (fetchSessions (user ex_state0) None (Inr [ex_session_a, ex_session_b]) ex_state0) =
     [ex_session_a, ex_session_b] \<and>
   currentSessionId
     (fetchSessions (user ex_state0) None (Inr [ex_session_a, ex_session_b]) ex_state0) =
     Some ''a'' \<and>
   sessions (fetchSessions (user ex_state0) (Some ''a'') (Inl ''offline'') ex_state1) =
     sessions ex_state1 \<and>
   currentSessionId (fetchSessions (user ex_state0) (Some ''a'') (Inl ''offline'') ex_state1) =
     Some ''a''"
  using fetchSessions_selects_first
    [where data = "[ex_session_a, ex_session_b]" and currentSessionId_c = None
       and u = "\<lparr>email = ''a@b.c'', name = ''User''\<rparr>" and s = ex_state0]
    fetchSessions_selects_first
    [where data = "[ex_session_a, ex_session_b]" and currentSessionId_c = None
       and u = "\<lparr>email = ''a@b.c'', name = ''User''\<rparr>" and s = ex_state1
       and c = "Some ''a''" and err = "''offline''"]
  by (simp add: ex_state0_def ex_state1_def ex_session_a_def)

section \<open>Persistence writes of one call\<close>

text \<open>
  C10. The rows written by one \<open>sendMessage\<close> are: the row of the new session, with an
  empty message sequence and at most once, when the call created the session; then the
  row of the final session when the completion request succeeded. So when the request
  fails on a session that was already current, the call writes nothing, and the user
  message it appended is held in memory only.
\<close>

theorem failed_send_writes_nothing:
  "upserts (sendMessage e t s) =
     upserts s @
     (if truthy (currentSessionId s) then [] else save_rows (save_created e) (newSession e t)) @
     (case completion e of
        Inl err \<Rightarrow> []
      | Inr r \<Rightarrow> save_rows (save_final e) (finalSession (sessions s) (currentSessionId s) e t r)) \<and>
   length (save_rows (save_created e) (newSession e t)) \<le> 1 \<and>
   (\<forall>r\<in>set (save_rows (save_created e) (newSession e t)). row_messages r = []) \<and>
   (truthy (currentSessionId s) \<and> completion e = Inl err \<longrightarrow>
      upserts (sendMessage e t s) = upserts s)"
  by (auto simp: upserts_sendMessage save_rows_def newSession_def split: option.splits)

theorem failed_send_writes_nothing_witness:
  "truthy (currentSessionId ex_state1) \<and> completion ex_env_fail = Inl ''timeout'' \<and>
   upserts (sendMessage ex_env_fail ''hi'' ex_state1) = upserts ex_state1 \<and>
   session_messages ''a'' (sendMessage ex_env_fail ''hi'' ex_state1) =
     ex_msgs @ [\<lparr>msg_id = ''m1'', role = User_role, content = ''hi'', timestamp = 2\<rparr>] \<and>
   length (upserts (sendMessage ex_env_ok ''hi'' ex_state1)) = 1"
  using failed_send_writes_nothing [of ex_env_fail "''hi''" ex_state1 "''timeout''"]
  by (simp add: ex_defs)

end
